theory Spec2Isabelle
  imports Main "HOL-Library.Sublist"
begin

section \<open>Python values and exceptions\<close>

text \<open>
  The program is one Python script, \<^verbatim>\<open>rag.py\<close>. It raises no exception of its own and
  has no \<^verbatim>\<open>try\<close>: every exception comes from a library or provider call and travels
  unchanged to the caller. An exception is modelled by its class name and its message, and
  a call that may raise returns \<open>exn + 'a\<close>.
\<close>

datatype exn = Exn (exn_class: string) (exn_message: string)

record document =
  page_content :: string
  metadata :: "(string \<times> string) list"

text \<open>The values stored in the dictionary that the question-answering chain returns.\<close>

datatype pyval = Str string | Docs "document list"

section \<open>The prompt template (lines 21--33 and 71)\<close>

definition prompt_template :: string where
  "prompt_template =
    ''\<newline>Human: Use the following pieces of context to provide a \<newline>concise answer to the question at the end but summarize with \<newline>at least 250 words with detailed explanations. If you don't know the answer, \<newline>just say that you don't know, don't try to make up an answer.\<newline><context>\<newline>{context}\<newline></context>\<newline>\<newline>Question: {question}\<newline>\<newline>Assistant:\<newline>''"

text \<open>
  \<^verbatim>\<open>PromptTemplate(template=prompt_template, input_variables=["context", "question"])\<close>
  formats the template as Python's \<^verbatim>\<open>str.format\<close> does: the template is scanned once,
  \<^verbatim>\<open>{name}\<close> is a replacement field, \<^verbatim>\<open>{{\<close> and \<^verbatim>\<open>}}\<close> are escaped braces, a lone
  \<^verbatim>\<open>}\<close> or an unclosed \<^verbatim>\<open>{\<close> is a \<^verbatim>\<open>ValueError\<close>, and a field with no value is a
  \<^verbatim>\<open>KeyError\<close>. The values that replace the fields are not scanned again. Conversions and
  format specifications inside a field are not modelled: the template has none.
\<close>

datatype piece = Ch char | Field string

text \<open>
  The scanner: the first argument is \<open>None\<close> outside a field, and inside a field it holds
  the characters of the field name read so far, last one first.
\<close>

fun scan :: "string option \<Rightarrow> string \<Rightarrow> exn + piece list" where
  "scan None [] = Inr []"
| "scan (Some nm) [] = Inl (Exn ''ValueError'' ''expected '}' before end of string'')"
| "scan None (c # cs) =
     (if c = CHR ''{'' then
        (case cs of
           d # ds \<Rightarrow>
             if d = CHR ''{'' then map_sum id ((#) (Ch c)) (scan None ds)
             else scan (Some []) cs
         | [] \<Rightarrow> Inl (Exn ''ValueError'' ''Single '{' encountered in format string''))
      else if c = CHR ''}'' then
        (case cs of
           d # ds \<Rightarrow>
             if d = CHR ''}'' then map_sum id ((#) (Ch c)) (scan None ds)
             else Inl (Exn ''ValueError'' ''Single '}' encountered in format string'')
         | [] \<Rightarrow> Inl (Exn ''ValueError'' ''Single '}' encountered in format string''))
      else map_sum id ((#) (Ch c)) (scan None cs))"
| "scan (Some nm) (c # cs) =
     (if c = CHR ''}'' then map_sum id ((#) (Field (rev nm))) (scan None cs)
      else scan (Some (c # nm)) cs)"

definition parse_template :: "string \<Rightarrow> exn + piece list" where
  "parse_template t = scan None t"

fun render :: "(string \<rightharpoonup> string) \<Rightarrow> piece list \<Rightarrow> exn + string" where
  "render kw [] = Inr []"
| "render kw (Ch c # ps) = map_sum id ((#) c) (render kw ps)"
| "render kw (Field nm # ps) =
     (case kw nm of
        None \<Rightarrow> Inl (Exn ''KeyError'' nm)
      | Some v \<Rightarrow> map_sum id ((@) v) (render kw ps))"

definition format_template :: "string \<Rightarrow> (string \<rightharpoonup> string) \<Rightarrow> exn + string" where
  "format_template t kw =
     (case parse_template t of Inl e \<Rightarrow> Inl e | Inr ps \<Rightarrow> render kw ps)"

text \<open>\<^verbatim>\<open>PROMPT.format(context=..., question=...)\<close>\<close>

definition PROMPT_format :: "string \<Rightarrow> string \<Rightarrow> exn + string" where
  "PROMPT_format context question =
     format_template prompt_template [''context'' \<mapsto> context, ''question'' \<mapsto> question]"

text \<open>
  The text of the template before the context block, and the sentence in it that tells the
  model what to do when it does not know the answer.
\<close>

definition preamble :: string where
  "preamble =
    ''\<newline>Human: Use the following pieces of context to provide a \<newline>concise answer to the question at the end but summarize with \<newline>at least 250 words with detailed explanations. If you don't know the answer, \<newline>just say that you don't know, don't try to make up an answer.\<newline>''"

definition dont_know_instruction :: string where
  "dont_know_instruction =
    ''If you don't know the answer, \<newline>just say that you don't know, don't try to make up an answer.''"

section \<open>The libraries and providers the script calls\<close>

text \<open>
  The script delegates embedding, indexing, persistence, document loading, splitting and
  generation to libraries (\<^verbatim>\<open>langchain\<close>, \<^verbatim>\<open>FAISS\<close>) and to a remote provider
  (\<^verbatim>\<open>Bedrock\<close>). Their code is not part of the script: they are the fields of an
  environment, and every statement below holds for every environment. \<open>'v\<close> is the type
  of embedding vectors, \<open>'i\<close> of an in-memory FAISS store, \<open>'b\<close> of what
  \<^verbatim>\<open>save_local\<close> leaves on disk.
\<close>

record llm =
  model_id :: string
  max_gen_len :: int

record ('v, 'i, 'b) env =
  embed_query :: "string \<Rightarrow> exn + 'v"
  embed_documents :: "string list \<Rightarrow> exn + 'v list"
  faiss_build :: "(document \<times> 'v) list \<Rightarrow> exn + 'i"
  faiss_search :: "'i \<Rightarrow> 'v \<Rightarrow> int \<Rightarrow> exn + document list"
  faiss_write :: "'i \<Rightarrow> 'b"
  faiss_read :: "'b option \<Rightarrow> bool \<Rightarrow> exn + 'i"
  pdf_directory_load :: "string \<Rightarrow> exn + document list"
  split_documents :: "int \<Rightarrow> int \<Rightarrow> document list \<Rightarrow> exn + document list"
  invoke_model :: "llm \<Rightarrow> string \<Rightarrow> exn + string"
  document_separator :: string

text \<open>The file system: what is stored at each path.\<close>

type_synonym 'b files = "string \<rightharpoonup> 'b"

section \<open>Building the vector store (lines 49--59)\<close>

text \<open>
  \<^verbatim>\<open>
  def get_documents():
      loader = PyPDFDirectoryLoader("data")
      documents = loader.load()
      text_splitter = RecursiveCharacterTextSplitter(chunk_size=1000, chunk_overlap=500)
      docs = text_splitter.split_documents(documents)
      return docs
  \<close>
\<close>

definition get_documents :: "('v, 'i, 'b) env \<Rightarrow> exn + document list" where
  "get_documents E =
     (case pdf_directory_load E ''data'' of
        Inl e \<Rightarrow> Inl e
      | Inr documents \<Rightarrow> split_documents E 1000 500 documents)"

text \<open>
  \<^verbatim>\<open>FAISS.from_documents(docs, bedrock_embeddings)\<close> embeds the texts of the documents in
  one call and builds the store from the documents paired with their vectors.
\<close>

definition from_documents :: "('v, 'i, 'b) env \<Rightarrow> document list \<Rightarrow> exn + 'i" where
  "from_documents E docs =
     (case embed_documents E (map page_content docs) of
        Inl e \<Rightarrow> Inl e
      | Inr vectors \<Rightarrow> faiss_build E (zip docs vectors))"

definition save_local :: "('v, 'i, 'b) env \<Rightarrow> 'i \<Rightarrow> string \<Rightarrow> 'b files \<Rightarrow> 'b files" where
  "save_local E store path fs = fs(path \<mapsto> faiss_write E store)"

definition load_local :: "('v, 'i, 'b) env \<Rightarrow> string \<Rightarrow> bool \<Rightarrow> 'b files \<Rightarrow> exn + 'i" where
  "load_local E path allow_dangerous_deserialization fs =
     faiss_read E (fs path) allow_dangerous_deserialization"

text \<open>
  \<^verbatim>\<open>
  def get_vector_store(docs):
      vectorstore_faiss = FAISS.from_documents(docs, bedrock_embeddings)
      vectorstore_faiss.save_local("faiss_index")
  \<close>
  The function has no \<^verbatim>\<open>return\<close>: its value is \<^verbatim>\<open>None\<close>, the unit value here.
\<close>

definition get_vector_store ::
  "('v, 'i, 'b) env \<Rightarrow> document list \<Rightarrow> 'b files \<Rightarrow> (exn + unit) \<times> 'b files" where
  "get_vector_store E docs fs =
     (case from_documents E docs of
        Inl e \<Rightarrow> (Inl e, fs)
      | Inr vectorstore_faiss \<Rightarrow> (Inr (), save_local E vectorstore_faiss ''faiss_index'' fs))"

definition get_llm :: llm where
  "get_llm = \<lparr>model_id = ''meta.llama3-70b-instruct-v1:0'', max_gen_len = 512\<rparr>"

section \<open>The question-answering chain (lines 74--85)\<close>

text \<open>
  \<^verbatim>\<open>vectorstore_faiss.as_retriever(search_type="similarity", search_kwargs={"k": 3})\<close>:
  the retriever keeps the store and the keyword arguments, and passes them to the store's
  similarity search, whose own default for \<^verbatim>\<open>k\<close> is 4.
\<close>

record 'i retriever =
  vectorstore :: 'i
  search_kwargs :: "string \<rightharpoonup> int"

definition as_retriever :: "'i \<Rightarrow> (string \<rightharpoonup> int) \<Rightarrow> 'i retriever" where
  "as_retriever store kwargs = \<lparr>vectorstore = store, search_kwargs = kwargs\<rparr>"

definition similarity_search ::
  "('v, 'i, 'b) env \<Rightarrow> 'i \<Rightarrow> string \<Rightarrow> int \<Rightarrow> exn + document list" where
  "similarity_search E store query k =
     (case embed_query E query of
        Inl e \<Rightarrow> Inl e
      | Inr v \<Rightarrow> faiss_search E store v k)"

definition get_relevant_documents ::
  "('v, 'i, 'b) env \<Rightarrow> 'i retriever \<Rightarrow> string \<Rightarrow> exn + document list" where
  "get_relevant_documents E r query =
     similarity_search E (vectorstore r) query
       (case search_kwargs r ''k'' of None \<Rightarrow> 4 | Some k \<Rightarrow> k)"

text \<open>
  \<^verbatim>\<open>chain_type="stuff"\<close>: the texts of the documents are joined, in the order they were
  retrieved, with the chain's separator between them, and the result is the value of
  \<^verbatim>\<open>context\<close>. \<open>join\<close> is Python's \<^verbatim>\<open>sep.join(texts)\<close>.
\<close>

fun join :: "string \<Rightarrow> string list \<Rightarrow> string" where
  "join sep [] = []"
| "join sep [t] = t"
| "join sep (t # u # ts) = t @ sep @ join sep (u # ts)"

definition stuff_documents :: "string \<Rightarrow> document list \<Rightarrow> string" where
  "stuff_documents sep docs = join sep (map page_content docs)"

definition assemble :: "string \<Rightarrow> document list \<Rightarrow> string \<Rightarrow> exn + string" where
  "assemble sep docs question = PROMPT_format (stuff_documents sep docs) question"

definition combine_documents ::
  "('v, 'i, 'b) env \<Rightarrow> llm \<Rightarrow> document list \<Rightarrow> string \<Rightarrow> exn + string" where
  "combine_documents E l docs question =
     (case assemble (document_separator E) docs question of
        Inl e \<Rightarrow> Inl e
      | Inr prompt \<Rightarrow> invoke_model E l prompt)"

record 'i retrieval_qa =
  qa_llm :: llm
  qa_retriever :: "'i retriever"
  return_source_documents :: bool

definition from_chain_type :: "llm \<Rightarrow> 'i retriever \<Rightarrow> bool \<Rightarrow> 'i retrieval_qa" where
  "from_chain_type l r rsd = \<lparr>qa_llm = l, qa_retriever = r, return_source_documents = rsd\<rparr>"

text \<open>
  Calling the chain: retrieve, combine, and return a dictionary with the inputs, the
  result and, when asked for, the source documents.
\<close>

definition qa_call ::
  "('v, 'i, 'b) env \<Rightarrow> 'i retrieval_qa \<Rightarrow> string \<Rightarrow> exn + (string \<rightharpoonup> pyval)" where
  "qa_call E qa query =
     (case get_relevant_documents E (qa_retriever qa) query of
        Inl e \<Rightarrow> Inl e
      | Inr docs \<Rightarrow>
          (case combine_documents E (qa_llm qa) docs query of
             Inl e \<Rightarrow> Inl e
           | Inr answer \<Rightarrow>
               Inr (if return_source_documents qa
                    then [''query'' \<mapsto> Str query, ''result'' \<mapsto> Str answer,
                          ''source_documents'' \<mapsto> Docs docs]
                    else [''query'' \<mapsto> Str query, ''result'' \<mapsto> Str answer])))"

definition getitem :: "(string \<rightharpoonup> pyval) \<Rightarrow> string \<Rightarrow> exn + pyval" where
  "getitem d key = (case d key of None \<Rightarrow> Inl (Exn ''KeyError'' key) | Some v \<Rightarrow> Inr v)"

text \<open>
  \<^verbatim>\<open>
  def get_response_llm(llm, vectorstore_faiss, query):
      qa = RetrievalQA.from_chain_type(
          llm=llm,
          chain_type="stuff",
          retriever=vectorstore_faiss.as_retriever(
              search_type="similarity", search_kwargs={"k": 3}
          ),
          return_source_documents=True,
          chain_type_kwargs={"prompt": PROMPT},
      )
      answer = qa({"query": query})
      return answer["result"]
  \<close>
\<close>

definition qa_chain :: "llm \<Rightarrow> 'i \<Rightarrow> 'i retrieval_qa" where
  "qa_chain l vectorstore_faiss =
     from_chain_type l (as_retriever vectorstore_faiss [''k'' \<mapsto> 3]) True"

definition get_response_llm ::
  "('v, 'i, 'b) env \<Rightarrow> llm \<Rightarrow> 'i \<Rightarrow> string \<Rightarrow> exn + pyval" where
  "get_response_llm E l vectorstore_faiss query =
     (case qa_call E (qa_chain l vectorstore_faiss) query of
        Inl e \<Rightarrow> Inl e
      | Inr answer \<Rightarrow> getitem answer ''result'')"

section \<open>The application (lines 88--107)\<close>

text \<open>
  One run of the script: the text typed by the user and the button that was pressed. What
  the page shows is a list of outputs, followed by the exception that ended the run, if
  one did.
\<close>

record ui =
  user_question :: string
  store_vector_button :: bool
  send_button :: bool

datatype widget = Success string | Write pyval

definition store_vector ::
  "('v, 'i, 'b) env \<Rightarrow> 'b files \<Rightarrow> (widget list \<times> exn option) \<times> 'b files" where
  "store_vector E fs =
     (case get_documents E of
        Inl e \<Rightarrow> (([], Some e), fs)
      | Inr docs \<Rightarrow>
          (case get_vector_store E docs fs of
             (Inl e, fs') \<Rightarrow> (([], Some e), fs')
           | (Inr u, fs') \<Rightarrow> (([Success ''Vector store created successfully!''], None), fs')))"

definition send :: "('v, 'i, 'b) env \<Rightarrow> 'b files \<Rightarrow> string \<Rightarrow> widget list \<times> exn option" where
  "send E fs question =
     (case load_local E ''faiss_index'' True fs of
        Inl e \<Rightarrow> ([], Some e)
      | Inr faiss_index \<Rightarrow>
          (case get_response_llm E get_llm faiss_index question of
             Inl e \<Rightarrow> ([], Some e)
           | Inr response \<Rightarrow> ([Write response], None)))"

definition main ::
  "('v, 'i, 'b) env \<Rightarrow> ui \<Rightarrow> 'b files \<Rightarrow> (widget list \<times> exn option) \<times> 'b files" where
  "main E u fs =
     (case (if store_vector_button u then store_vector E fs else (([], None), fs)) of
        ((out1, Some e), fs1) \<Rightarrow> ((out1, Some e), fs1)
      | ((out1, None), fs1) \<Rightarrow>
          (if send_button u
           then (case send E fs1 (user_question u) of
                   (out2, x) \<Rightarrow> ((out1 @ out2, x), fs1))
           else ((out1, None), fs1)))"

section \<open>Properties\<close>

text \<open>
  The predicate of the grounding guarantee: the texts occur in the string one after the
  other, each one whole, in the order of the list.
\<close>

fun appear_in_order :: "string list \<Rightarrow> string \<Rightarrow> bool" where
  "appear_in_order [] s = True"
| "appear_in_order (t # ts) s = (\<exists>pre post. s = pre @ t @ post \<and> appear_in_order ts post)"

section \<open>A small environment to run the script on\<close>

text \<open>
  Vectors are numbers (the length of the text), a store is the list of its documents, the
  search returns the first \<open>k\<close> of them, and the model answers every prompt with
  \<^verbatim>\<open>ok\<close>.
\<close>

definition demo_env :: "(nat, document list, document list) env" where
  "demo_env =
     \<lparr>embed_query = (\<lambda>s. Inr (length s)),
      embed_documents = (\<lambda>ts. Inr (map length ts)),
      faiss_build = (\<lambda>ps. Inr (map fst ps)),
      faiss_search = (\<lambda>i v k. Inr (take (nat k) i)),
      faiss_write = (\<lambda>i. i),
      faiss_read = (\<lambda>b allow.
         case b of None \<Rightarrow> Inl (Exn ''RuntimeError'' ''could not open faiss_index'')
                 | Some i \<Rightarrow> Inr i),
      pdf_directory_load = (\<lambda>d. Inr []),
      split_documents = (\<lambda>m ov ds. Inr ds),
      invoke_model = (\<lambda>l p. Inr ''ok''),
      document_separator = ''\<newline>\<newline>''\<rparr>"

definition doc_a :: document where
  "doc_a = \<lparr>page_content = ''The sky is blue.'', metadata = []\<rparr>"

definition doc_b :: document where
  "doc_b = \<lparr>page_content = ''Water is wet.'', metadata = []\<rparr>"

definition throttled :: exn where
  "throttled = Exn ''ValueError'' ''Error raised by bedrock service: throttled''"

section \<open>Lemmas about the chain\<close>

lemma PROMPT_format_eq:
  "PROMPT_format c q =
     Inr (preamble @ ''<context>\<newline>'' @ c @ ''\<newline></context>\<newline>\<newline>Question: '' @ q @ ''\<newline>\<newline>Assistant:\<newline>'')"
  by (simp add: PROMPT_format_def format_template_def parse_template_def prompt_template_def
      preamble_def)

lemma appear_in_order_prepend:
  "appear_in_order ts s \<Longrightarrow> appear_in_order ts (p @ s)"
proof (cases ts)
  case Nil
  then show ?thesis by simp
next
  case (Cons t ts')
  assume "appear_in_order ts s"
  with Cons obtain pre post where "s = pre @ t @ post" "appear_in_order ts' post"
    by auto
  then have "p @ s = (p @ pre) @ t @ post \<and> appear_in_order ts' post" by simp
  with Cons show ?thesis by (metis appear_in_order.simps(2))
qed

lemma appear_in_order_join: "appear_in_order ts (join sep ts)"
proof (induction sep ts rule: join.induct)
  case (1 sep)
  show ?case by simp
next
  case (2 sep t)
  have "t = [] @ t @ [] \<and> appear_in_order [] []" by simp
  then show ?case by (metis appear_in_order.simps(2) join.simps(2))
next
  case (3 sep t u ts)
  have "appear_in_order (u # ts) (sep @ join sep (u # ts))"
    using "3.IH" by (rule appear_in_order_prepend)
  moreover have "join sep (t # u # ts) = [] @ t @ (sep @ join sep (u # ts))" by simp
  ultimately show ?case by (metis appear_in_order.simps(2))
qed

lemma preamble_instruction:
  "preamble = ''\<newline>Human: Use the following pieces of context to provide a \<newline>concise answer to the question at the end but summarize with \<newline>at least 250 words with detailed explanations. '' @ dont_know_instruction @ ''\<newline>''"
  by (simp add: preamble_def dont_know_instruction_def)

lemma get_response_llm_eq:
  "get_response_llm E l store q =
     (case embed_query E q of
        Inl e \<Rightarrow> Inl e
      | Inr v \<Rightarrow>
          (case faiss_search E store v 3 of
             Inl e \<Rightarrow> Inl e
           | Inr docs \<Rightarrow>
               (case assemble (document_separator E) docs q of
                  Inl e \<Rightarrow> Inl e
                | Inr prompt \<Rightarrow>
                    (case invoke_model E l prompt of
                       Inl e \<Rightarrow> Inl e
                     | Inr text \<Rightarrow> Inr (Str text)))))"
  by (simp add: get_response_llm_def qa_call_def qa_chain_def from_chain_type_def
      as_retriever_def get_relevant_documents_def similarity_search_def
      combine_documents_def getitem_def split: sum.splits)

lemma send_eq:
  "send E fs q =
     (case faiss_read E (fs ''faiss_index'') True of
        Inl e \<Rightarrow> ([], Some e)
      | Inr store \<Rightarrow>
          (case get_response_llm E get_llm store q of
             Inl e \<Rightarrow> ([], Some e)
           | Inr r \<Rightarrow> ([Write r], None)))"
  by (simp add: send_def load_local_def)

lemma get_vector_store_frame:
  "snd (get_vector_store E docs fs) =
     fs(''faiss_index'' := snd (get_vector_store E docs fs) ''faiss_index'')"
  by (auto simp: get_vector_store_def save_local_def split: sum.splits)

lemma store_vector_frame:
  "snd (store_vector E fs) = fs(''faiss_index'' := snd (store_vector E fs) ''faiss_index'')"
proof (cases "get_documents E")
  case (Inl e)
  then show ?thesis by (auto simp: store_vector_def)
next
  case (Inr docs)
  have "snd (store_vector E fs) = snd (get_vector_store E docs fs)"
    using Inr by (simp add: store_vector_def split: prod.splits sum.splits)
  then show ?thesis using get_vector_store_frame[of E docs fs] by simp
qed

lemma main_files: "snd (main E u fs) = (if store_vector_button u then snd (store_vector E fs) else fs)"
  by (simp add: main_def split: prod.splits option.splits)

section \<open>Claims\<close>

text \<open>
  Claim C1. Prompt assembly is a function of the retrieved documents and the question
  alone (with the chain's separator): the prompt is the fixed preamble, the context block
  between its tags, the question and the closing line, and nothing else. The context block
  is the join of the texts of the retrieved documents, so every text occurs in it whole,
  and the texts occur in the order of retrieval.
\<close>

theorem prompt_assembly_grounded:
  "assemble sep docs q =
     Inr (preamble @ ''<context>\<newline>'' @ stuff_documents sep docs
          @ ''\<newline></context>\<newline>\<newline>Question: '' @ q @ ''\<newline>\<newline>Assistant:\<newline>'')
   \<and> stuff_documents sep docs = join sep (map page_content docs)
   \<and> appear_in_order (map page_content docs) (stuff_documents sep docs)"
  by (simp add: assemble_def PROMPT_format_eq stuff_documents_def appear_in_order_join)

text \<open>
  Claim C7. With no retrieved document the context block is empty, and the prompt still
  holds the sentence that tells the model to say that it does not know; the sentence is
  part of the preamble, so it is in the prompt for every list of documents.
\<close>

theorem empty_context_keeps_instruction:
  "stuff_documents sep [] = []
   \<and> assemble sep [] q =
       Inr (preamble @ ''<context>\<newline>\<newline></context>\<newline>\<newline>Question: '' @ q @ ''\<newline>\<newline>Assistant:\<newline>'')
   \<and> sublist dont_know_instruction preamble
   \<and> (\<exists>p. assemble sep docs q = Inr p \<and> sublist dont_know_instruction p)"
proof -
  have s: "sublist dont_know_instruction preamble"
    by (subst preamble_instruction) (rule sublist_appendI)
  have e: "stuff_documents sep [] = []" by (simp add: stuff_documents_def)
  have a: "assemble sep ds q =
       Inr (preamble @ ''<context>\<newline>'' @ stuff_documents sep ds
          @ ''\<newline></context>\<newline>\<newline>Question: '' @ q @ ''\<newline>\<newline>Assistant:\<newline>'')" for ds
    by (simp add: assemble_def PROMPT_format_eq)
  have "sublist dont_know_instruction (preamble @ r)" for r
    using s by (metis sublist_append)
  then have "\<exists>p. assemble sep docs q = Inr p \<and> sublist dont_know_instruction p"
    by (simp add: a)
  with s e a[of "[]"] show ?thesis by simp
qed

text \<open>
  Claim C4, as the code has it. When retrieval and generation succeed, the dictionary that
  the chain returns holds the generated text under \<^verbatim>\<open>result\<close> and the retrieved
  documents under \<^verbatim>\<open>source_documents\<close>, and \<^verbatim>\<open>get_response_llm\<close> returns the
  generated text alone: the documents are not part of what it returns.
\<close>

theorem answer_is_text_only:
  assumes "similarity_search E store q 3 = Inr docs"
    and "combine_documents E l docs q = Inr text"
  shows "\<exists>answer. qa_call E (qa_chain l store) q = Inr answer
           \<and> answer ''result'' = Some (Str text)
           \<and> answer ''source_documents'' = Some (Docs docs)
           \<and> get_response_llm E l store q = Inr (Str text)"
  using assms
  by (simp add: get_response_llm_def qa_call_def qa_chain_def from_chain_type_def
      as_retriever_def get_relevant_documents_def getitem_def)

theorem answer_is_text_only_witness:
  "similarity_search demo_env [doc_a, doc_b] ''What color is the sky?'' 3 = Inr [doc_a, doc_b]
   \<and> combine_documents demo_env get_llm [doc_a, doc_b] ''What color is the sky?'' = Inr ''ok''
   \<and> (\<exists>answer. qa_call demo_env (qa_chain get_llm [doc_a, doc_b]) ''What color is the sky?''
                  = Inr answer
         \<and> answer ''result'' = Some (Str ''ok'')
         \<and> answer ''source_documents'' = Some (Docs [doc_a, doc_b])
         \<and> get_response_llm demo_env get_llm [doc_a, doc_b] ''What color is the sky?''
             = Inr (Str ''ok''))"
proof -
  have h1: "similarity_search demo_env [doc_a, doc_b] ''What color is the sky?'' 3
              = Inr [doc_a, doc_b]"
    by (simp add: similarity_search_def demo_env_def)
  have h2: "combine_documents demo_env get_llm [doc_a, doc_b] ''What color is the sky?''
              = Inr ''ok''"
    by (simp add: combine_documents_def assemble_def PROMPT_format_eq demo_env_def)
  from answer_is_text_only [OF h1 h2] h1 h2 show ?thesis by blast
qed

text \<open>
  Two stores that retrieve different documents for the same question give the same
  returned value, so the returned value does not hold the documents.
\<close>

theorem answer_carries_sources_counterexample:
  "get_response_llm demo_env get_llm [doc_a] ''What color is the sky?'' = Inr (Str ''ok'')
   \<and> get_response_llm demo_env get_llm [doc_b] ''What color is the sky?'' = Inr (Str ''ok'')
   \<and> similarity_search demo_env [doc_a] ''What color is the sky?'' 3 = Inr [doc_a]
   \<and> similarity_search demo_env [doc_b] ''What color is the sky?'' 3 = Inr [doc_b]
   \<and> doc_a \<noteq> doc_b"
  by (simp add: get_response_llm_eq similarity_search_def assemble_def PROMPT_format_eq
      demo_env_def doc_a_def doc_b_def)

text \<open>
  Claim C8, as the code has it. Answering is all or nothing. An exception of the embedding
  call, of the search or of the model call is the result of \<^verbatim>\<open>get_response_llm\<close>, the
  same exception with the same message; when every stage succeeds the result is the text
  of the model, without the retrieved documents; a result is returned only when every
  stage succeeded. The \<^verbatim>\<open>Send\<close> handler passes on the exception of the load or of
  \<^verbatim>\<open>get_response_llm\<close> as it is and writes nothing, and writes the answer otherwise.
\<close>

theorem answering_all_or_nothing:
  "(embed_query E q = Inl e \<longrightarrow> get_response_llm E l store q = Inl e)
   \<and> (embed_query E q = Inr v \<and> faiss_search E store v 3 = Inl e
      \<longrightarrow> get_response_llm E l store q = Inl e)
   \<and> (embed_query E q = Inr v \<and> faiss_search E store v 3 = Inr docs
        \<and> assemble (document_separator E) docs q = Inr prompt
        \<and> invoke_model E l prompt = Inl e
      \<longrightarrow> get_response_llm E l store q = Inl e)
   \<and> (embed_query E q = Inr v \<and> faiss_search E store v 3 = Inr docs
        \<and> assemble (document_separator E) docs q = Inr prompt
        \<and> invoke_model E l prompt = Inr reply
      \<longrightarrow> get_response_llm E l store q = Inr (Str reply))
   \<and> (get_response_llm E l store q = Inr r
      \<longrightarrow> (\<exists>v' docs' prompt' reply'.
             embed_query E q = Inr v' \<and> faiss_search E store v' 3 = Inr docs'
             \<and> assemble (document_separator E) docs' q = Inr prompt'
             \<and> invoke_model E l prompt' = Inr reply' \<and> r = Str reply'))
   \<and> (load_local E ''faiss_index'' True fs = Inl e \<longrightarrow> send E fs q = ([], Some e))
   \<and> (load_local E ''faiss_index'' True fs = Inr store
        \<and> get_response_llm E get_llm store q = Inl e
      \<longrightarrow> send E fs q = ([], Some e))
   \<and> (load_local E ''faiss_index'' True fs = Inr store
        \<and> get_response_llm E get_llm store q = Inr r
      \<longrightarrow> send E fs q = ([Write r], None))
   \<and> (\<not> store_vector_button u \<and> send_button u
      \<longrightarrow> main E u fs = (send E fs (user_question u), fs))"
proof -
  have a: "embed_query E q = Inl e \<longrightarrow> get_response_llm E l store q = Inl e"
    by (simp add: get_response_llm_eq)
  have a': "embed_query E q = Inr v \<and> faiss_search E store v 3 = Inl e
      \<longrightarrow> get_response_llm E l store q = Inl e"
    by (simp add: get_response_llm_eq)
  have b: "embed_query E q = Inr v \<and> faiss_search E store v 3 = Inr docs
        \<and> assemble (document_separator E) docs q = Inr prompt
        \<and> invoke_model E l prompt = Inl e
      \<longrightarrow> get_response_llm E l store q = Inl e"
    by (simp add: get_response_llm_eq)
  have c: "embed_query E q = Inr v \<and> faiss_search E store v 3 = Inr docs
        \<and> assemble (document_separator E) docs q = Inr prompt
        \<and> invoke_model E l prompt = Inr reply
      \<longrightarrow> get_response_llm E l store q = Inr (Str reply)"
    by (simp add: get_response_llm_eq)
  have d: "get_response_llm E l store q = Inr r
      \<longrightarrow> (\<exists>v' docs' prompt' reply'.
             embed_query E q = Inr v' \<and> faiss_search E store v' 3 = Inr docs'
             \<and> assemble (document_separator E) docs' q = Inr prompt'
             \<and> invoke_model E l prompt' = Inr reply' \<and> r = Str reply')"
    by (auto simp: get_response_llm_eq split: sum.splits)
  have f0: "load_local E ''faiss_index'' True fs = Inl e \<longrightarrow> send E fs q = ([], Some e)"
    by (simp add: send_def)
  have f: "load_local E ''faiss_index'' True fs = Inr store
        \<and> get_response_llm E get_llm store q = Inl e
      \<longrightarrow> send E fs q = ([], Some e)"
    by (simp add: send_def)
  have g: "load_local E ''faiss_index'' True fs = Inr store
        \<and> get_response_llm E get_llm store q = Inr r
      \<longrightarrow> send E fs q = ([Write r], None)"
    by (simp add: send_def)
  have m: "\<not> store_vector_button u \<and> send_button u
      \<longrightarrow> main E u fs = (send E fs (user_question u), fs)"
    by (simp add: main_def split: prod.splits)
  from a a' b c d f0 f g m show ?thesis by blast
qed

theorem answering_all_or_nothing_witness:
  "embed_query (demo_env\<lparr>embed_query := \<lambda>s. Inl throttled\<rparr>) ''What color is the sky?''
     = Inl throttled
   \<and> get_response_llm (demo_env\<lparr>embed_query := \<lambda>s. Inl throttled\<rparr>) get_llm [doc_a]
         ''What color is the sky?'' = Inl throttled
   \<and> faiss_search (demo_env\<lparr>faiss_search := \<lambda>i v k. Inl (Exn ''AssertionError'' [])\<rparr>)
         [doc_a] 22 3 = Inl (Exn ''AssertionError'' [])
   \<and> get_response_llm (demo_env\<lparr>faiss_search := \<lambda>i v k. Inl (Exn ''AssertionError'' [])\<rparr>)
         get_llm [doc_a] ''What color is the sky?'' = Inl (Exn ''AssertionError'' [])
   \<and> invoke_model (demo_env\<lparr>invoke_model := \<lambda>l p. Inl throttled\<rparr>) get_llm
         (preamble @ ''<context>\<newline>The sky is blue.\<newline></context>\<newline>\<newline>Question: What color is the sky?\<newline>\<newline>Assistant:\<newline>'')
       = Inl throttled
   \<and> get_response_llm (demo_env\<lparr>invoke_model := \<lambda>l p. Inl throttled\<rparr>) get_llm [doc_a]
         ''What color is the sky?'' = Inl throttled
   \<and> send (demo_env\<lparr>invoke_model := \<lambda>l p. Inl throttled\<rparr>) [''faiss_index'' \<mapsto> [doc_a]]
         ''What color is the sky?'' = ([], Some throttled)
   \<and> load_local demo_env ''faiss_index'' True Map.empty
       = Inl (Exn ''RuntimeError'' ''could not open faiss_index'')
   \<and> send demo_env Map.empty ''What color is the sky?''
       = ([], Some (Exn ''RuntimeError'' ''could not open faiss_index''))
   \<and> get_response_llm demo_env get_llm [doc_a] ''What color is the sky?'' = Inr (Str ''ok'')
   \<and> (\<exists>v docs prompt.
         embed_query demo_env ''What color is the sky?'' = Inr v
         \<and> faiss_search demo_env [doc_a] v 3 = Inr docs
         \<and> assemble (document_separator demo_env) docs ''What color is the sky?'' = Inr prompt
         \<and> invoke_model demo_env get_llm prompt = Inr ''ok'')
   \<and> send demo_env [''faiss_index'' \<mapsto> [doc_a]] ''What color is the sky?''
       = ([Write (Str ''ok'')], None)
   \<and> main demo_env
        \<lparr>user_question = ''What color is the sky?'', store_vector_button = False,
         send_button = True\<rparr>
        [''faiss_index'' \<mapsto> [doc_a]]
       = (([Write (Str ''ok'')], None), [''faiss_index'' \<mapsto> [doc_a]])"
proof -
  let ?q = "''What color is the sky?''"
  let ?p = "preamble @ ''<context>\<newline>The sky is blue.\<newline></context>\<newline>\<newline>Question: What color is the sky?\<newline>\<newline>Assistant:\<newline>''"
  let ?E1 = "demo_env\<lparr>embed_query := \<lambda>s. Inl throttled\<rparr>"
  let ?E2 = "demo_env\<lparr>invoke_model := \<lambda>l p. Inl throttled\<rparr>"
  let ?x = "Exn ''AssertionError'' []"
  let ?E3 = "demo_env\<lparr>faiss_search := \<lambda>i v k. Inl ?x\<rparr>"
  let ?y = "Exn ''RuntimeError'' ''could not open faiss_index''"
  let ?fs = "[''faiss_index'' \<mapsto> [doc_a]]"
  let ?u = "\<lparr>user_question = ?q, store_vector_button = False, send_button = True\<rparr>"
  note T = answering_all_or_nothing
  note T1 = T [THEN conjunct1, THEN mp]
  note T2 = T [THEN conjunct2, THEN conjunct1, THEN mp]
  note T3 = T [THEN conjunct2, THEN conjunct2, THEN conjunct1, THEN mp]
  note T4 = T [THEN conjunct2, THEN conjunct2, THEN conjunct2, THEN conjunct1, THEN mp]
  note T5 = T [THEN conjunct2, THEN conjunct2, THEN conjunct2, THEN conjunct2,
      THEN conjunct1, THEN mp]
  note T6 = T [THEN conjunct2, THEN conjunct2, THEN conjunct2, THEN conjunct2,
      THEN conjunct2, THEN conjunct1, THEN mp]
  note T7 = T [THEN conjunct2, THEN conjunct2, THEN conjunct2, THEN conjunct2,
      THEN conjunct2, THEN conjunct2, THEN conjunct1, THEN mp]
  note T8 = T [THEN conjunct2, THEN conjunct2, THEN conjunct2, THEN conjunct2,
      THEN conjunct2, THEN conjunct2, THEN conjunct2, THEN conjunct1, THEN mp]
  note T9 = T [THEN conjunct2, THEN conjunct2, THEN conjunct2, THEN conjunct2,
      THEN conjunct2, THEN conjunct2, THEN conjunct2, THEN conjunct2, THEN mp]
  have asm: "assemble ''\<newline>\<newline>'' [doc_a] ?q = Inr ?p"
    by (simp add: assemble_def PROMPT_format_eq stuff_documents_def doc_a_def)
  have sep: "document_separator demo_env = ''\<newline>\<newline>''"
    by (simp add: demo_env_def)
  have emb: "embed_query demo_env ?q = Inr 22"
    by (simp add: demo_env_def)
  have srch: "faiss_search demo_env [doc_a] 22 3 = Inr [doc_a]"
    by (simp add: demo_env_def)
  have h1: "embed_query ?E1 ?q = Inl throttled" by simp
  have c1: "get_response_llm ?E1 get_llm [doc_a] ?q = Inl throttled"
    by (rule T1 [OF h1])
  have h0a: "embed_query ?E3 ?q = Inr 22" using emb by simp
  have h0b: "faiss_search ?E3 [doc_a] 22 3 = Inl ?x" by simp
  have c0: "get_response_llm ?E3 get_llm [doc_a] ?q = Inl ?x"
    by (rule T2 [OF conjI [OF h0a h0b]])
  have h2a: "embed_query ?E2 ?q = Inr 22" using emb by simp
  have h2b: "faiss_search ?E2 [doc_a] 22 3 = Inr [doc_a]" using srch by simp
  have h2c: "assemble (document_separator ?E2) [doc_a] ?q = Inr ?p" using asm sep by simp
  have h2d: "invoke_model ?E2 get_llm ?p = Inl throttled" by simp
  have c2: "get_response_llm ?E2 get_llm [doc_a] ?q = Inl throttled"
    by (rule T3 [OF conjI [OF h2a conjI [OF h2b conjI [OF h2c h2d]]]])
  have l2: "load_local ?E2 ''faiss_index'' True ?fs = Inr [doc_a]"
    by (simp add: load_local_def demo_env_def)
  have s2: "send ?E2 ?fs ?q = ([], Some throttled)"
    by (rule T7 [OF conjI [OF l2 c2]])
  have l0: "load_local demo_env ''faiss_index'' True Map.empty = Inl ?y"
    by (simp add: load_local_def demo_env_def)
  have s0: "send demo_env Map.empty ?q = ([], Some ?y)"
    by (rule T6 [OF l0])
  have h3c: "assemble (document_separator demo_env) [doc_a] ?q = Inr ?p" using asm sep by simp
  have h3d: "invoke_model demo_env get_llm ?p = Inr ''ok''" by (simp add: demo_env_def)
  have c3: "get_response_llm demo_env get_llm [doc_a] ?q = Inr (Str ''ok'')"
    by (rule T4 [OF conjI [OF emb conjI [OF srch conjI [OF h3c h3d]]]])
  have "\<exists>v docs prompt reply.
         embed_query demo_env ?q = Inr v \<and> faiss_search demo_env [doc_a] v 3 = Inr docs
         \<and> assemble (document_separator demo_env) docs ?q = Inr prompt
         \<and> invoke_model demo_env get_llm prompt = Inr reply \<and> Str ''ok'' = Str reply"
    by (rule T5 [OF c3])
  then have c4: "\<exists>v docs prompt.
         embed_query demo_env ?q = Inr v \<and> faiss_search demo_env [doc_a] v 3 = Inr docs
         \<and> assemble (document_separator demo_env) docs ?q = Inr prompt
         \<and> invoke_model demo_env get_llm prompt = Inr ''ok''"
    by auto
  have l3: "load_local demo_env ''faiss_index'' True ?fs = Inr [doc_a]"
    by (simp add: load_local_def demo_env_def)
  have s3: "send demo_env ?fs ?q = ([Write (Str ''ok'')], None)"
    by (rule T8 [OF conjI [OF l3 c3]])
  have b: "\<not> store_vector_button ?u \<and> send_button ?u" by simp
  have m: "main demo_env ?u ?fs = (send demo_env ?fs (user_question ?u), ?fs)"
    by (rule T9 [OF b])
  have m': "main demo_env ?u ?fs = (([Write (Str ''ok'')], None), ?fs)"
    by (simp only: m s3 ui.simps)
  show ?thesis
    by (intro conjI) (rule h1 c1 h0b c0 h2d c2 s2 l0 s0 c3 c4 s3 m')+
qed

text \<open>
  A run in which every stage succeeds: the page shows the text of the model and nothing
  else, for either of two stores from which different documents were retrieved. What is
  returned on success is not the text together with the retrieved documents.
\<close>

theorem complete_answer_counterexample:
  "send demo_env [''faiss_index'' \<mapsto> [doc_a, doc_b]] ''What color is the sky?''
     = ([Write (Str ''ok'')], None)
   \<and> send demo_env [''faiss_index'' \<mapsto> [doc_b]] ''What color is the sky?''
     = ([Write (Str ''ok'')], None)
   \<and> similarity_search demo_env [doc_a, doc_b] ''What color is the sky?'' 3
     = Inr [doc_a, doc_b]
   \<and> similarity_search demo_env [doc_b] ''What color is the sky?'' 3 = Inr [doc_b]
   \<and> [doc_a, doc_b] \<noteq> [doc_b]
   \<and> Str ''ok'' \<noteq> Docs [doc_a, doc_b]"
  by (simp add: send_eq get_response_llm_eq similarity_search_def assemble_def PROMPT_format_eq
      demo_env_def)


text \<open>
  Claim C10. \<^verbatim>\<open>get_vector_store\<close> returns the unit value, and changes the files at
  \<^verbatim>\<open>faiss_index\<close> only: after a successful build that path holds what the library
  writes for the built store, and after a failed one the files are as before. A run of the
  page changes no other path either. The \<^verbatim>\<open>Send\<close> handler loads its store from what
  is stored at \<^verbatim>\<open>faiss_index\<close> and answers from the store that the load returns, so
  what it shows depends on the files only through that path; after a successful build it
  answers from what the library reads back from the written store.
\<close>

theorem faiss_index_sole_channel:
  assumes "fsa ''faiss_index'' = fsb ''faiss_index''"
  shows "snd (get_vector_store E docs fs) =
           fs(''faiss_index'' := snd (get_vector_store E docs fs) ''faiss_index'')
       \<and> (case from_documents E docs of
            Inl e \<Rightarrow> get_vector_store E docs fs = (Inl e, fs)
          | Inr built \<Rightarrow>
              get_vector_store E docs fs = (Inr (), fs(''faiss_index'' \<mapsto> faiss_write E built))
              \<and> send E (snd (get_vector_store E docs fs)) q =
                  (case faiss_read E (Some (faiss_write E built)) True of
                     Inl e \<Rightarrow> ([], Some e)
                   | Inr loaded \<Rightarrow>
                       (case get_response_llm E get_llm loaded q of
                          Inl e \<Rightarrow> ([], Some e)
                        | Inr r \<Rightarrow> ([Write r], None))))
       \<and> snd (main E u fs) = fs(''faiss_index'' := snd (main E u fs) ''faiss_index'')
       \<and> send E fsa q = send E fsb q
       \<and> send E fsa q =
           (case faiss_read E (fsa ''faiss_index'') True of
              Inl e \<Rightarrow> ([], Some e)
            | Inr loaded \<Rightarrow>
                (case get_response_llm E get_llm loaded q of
                   Inl e \<Rightarrow> ([], Some e)
                 | Inr r \<Rightarrow> ([Write r], None)))"
proof -
  have a: "case from_documents E docs of
            Inl e \<Rightarrow> get_vector_store E docs fs = (Inl e, fs)
          | Inr built \<Rightarrow>
              get_vector_store E docs fs = (Inr (), fs(''faiss_index'' \<mapsto> faiss_write E built))
              \<and> send E (snd (get_vector_store E docs fs)) q =
                  (case faiss_read E (Some (faiss_write E built)) True of
                     Inl e \<Rightarrow> ([], Some e)
                   | Inr loaded \<Rightarrow>
                       (case get_response_llm E get_llm loaded q of
                          Inl e \<Rightarrow> ([], Some e)
                        | Inr r \<Rightarrow> ([Write r], None)))"
    by (simp add: get_vector_store_def save_local_def send_eq split: sum.splits)
  have b: "snd (main E u fs) = fs(''faiss_index'' := snd (main E u fs) ''faiss_index'')"
    using store_vector_frame[of E fs] by (simp add: main_files)
  have c: "send E fsa q = send E fsb q"
    using assms by (simp add: send_eq)
  from a b c get_vector_store_frame[of E docs fs] send_eq[of E fsa q] show ?thesis
    by (intro conjI)
qed

text \<open>
  With a model that echoes its prompt, the answer shown after a build holds the text of
  the document that was built into the store.
\<close>

theorem faiss_index_sole_channel_witness:
  "[''faiss_index'' \<mapsto> [doc_a], ''notes'' \<mapsto> [doc_b]] ''faiss_index''
     = [''faiss_index'' \<mapsto> [doc_a]] ''faiss_index''
   \<and> get_vector_store (demo_env\<lparr>invoke_model := \<lambda>l p. Inr p\<rparr>) [doc_a] [''notes'' \<mapsto> [doc_b]]
       = (Inr (), [''notes'' \<mapsto> [doc_b], ''faiss_index'' \<mapsto> [doc_a]])
   \<and> send (demo_env\<lparr>invoke_model := \<lambda>l p. Inr p\<rparr>)
        (snd (get_vector_store (demo_env\<lparr>invoke_model := \<lambda>l p. Inr p\<rparr>) [doc_a]
               [''notes'' \<mapsto> [doc_b]]))
        ''What color is the sky?''
       = ([Write (Str (preamble @ ''<context>\<newline>The sky is blue.\<newline></context>\<newline>\<newline>Question: What color is the sky?\<newline>\<newline>Assistant:\<newline>''))], None)
   \<and> send (demo_env\<lparr>invoke_model := \<lambda>l p. Inr p\<rparr>)
        [''faiss_index'' \<mapsto> [doc_a], ''notes'' \<mapsto> [doc_b]] ''What color is the sky?''
       = send (demo_env\<lparr>invoke_model := \<lambda>l p. Inr p\<rparr>)
           [''faiss_index'' \<mapsto> [doc_a]] ''What color is the sky?''
   \<and> send (demo_env\<lparr>invoke_model := \<lambda>l p. Inr p\<rparr>)
        [''faiss_index'' \<mapsto> [doc_a], ''notes'' \<mapsto> [doc_b]] ''What color is the sky?''
       = ([Write (Str (preamble @ ''<context>\<newline>The sky is blue.\<newline></context>\<newline>\<newline>Question: What color is the sky?\<newline>\<newline>Assistant:\<newline>''))], None)"
proof -
  let ?E = "demo_env\<lparr>invoke_model := \<lambda>l p. Inr p\<rparr>"
  let ?q = "''What color is the sky?''"
  let ?p = "preamble @ ''<context>\<newline>The sky is blue.\<newline></context>\<newline>\<newline>Question: What color is the sky?\<newline>\<newline>Assistant:\<newline>''"
  let ?fsa = "[''faiss_index'' \<mapsto> [doc_a], ''notes'' \<mapsto> [doc_b]]"
  let ?fsb = "[''faiss_index'' \<mapsto> [doc_a]]"
  let ?fs = "[''notes'' \<mapsto> [doc_b]]"
  have h: "?fsa ''faiss_index'' = ?fsb ''faiss_index''"
    by simp
  note T = faiss_index_sole_channel
    [where fsa = ?fsa and fsb = ?fsb and E = ?E and docs = "[doc_a]" and fs = ?fs
       and q = ?q, OF h]
  have b: "from_documents ?E [doc_a] = Inr [doc_a]"
    by (simp add: from_documents_def demo_env_def)
  have w: "faiss_write ?E [doc_a] = [doc_a]"
    by (simp add: demo_env_def)
  have r: "faiss_read ?E (Some [doc_a]) True = Inr [doc_a]"
    by (simp add: demo_env_def)
  have asm: "assemble ''\<newline>\<newline>'' [doc_a] ?q = Inr ?p"
    by (simp add: assemble_def PROMPT_format_eq stuff_documents_def doc_a_def)
  have g: "get_response_llm ?E get_llm [doc_a] ?q = Inr (Str ?p)"
    using asm by (simp add: get_response_llm_eq demo_env_def)
  have t2: "get_vector_store ?E [doc_a] ?fs = (Inr (), ?fs(''faiss_index'' \<mapsto> [doc_a]))
      \<and> send ?E (snd (get_vector_store ?E [doc_a] ?fs)) ?q = ([Write (Str ?p)], None)"
    by (rule T [THEN conjunct2, THEN conjunct1, unfolded b w r g sum.case])
  have t4: "send ?E ?fsa ?q = send ?E ?fsb ?q"
    by (rule T [THEN conjunct2, THEN conjunct2, THEN conjunct2, THEN conjunct1])
  have fa: "?fsa ''faiss_index'' = Some [doc_a]" by simp
  have t5: "send ?E ?fsa ?q = ([Write (Str ?p)], None)"
    by (rule T [THEN conjunct2, THEN conjunct2, THEN conjunct2, THEN conjunct2,
          unfolded fa r g sum.case])
  show ?thesis
    by (intro conjI) (rule h t2 [THEN conjunct1] t2 [THEN conjunct2] t4 t5)+
qed

end
